theory Spec2Isabelle
  imports Main "HOL-Library.Word"
begin

section \<open>The PointCloud2 decoder of \<^verbatim>\<open>unitree_webrtc_connect/lidar/pointcloud2_decoder.py\<close>\<close>

text \<open>
  The decoder receives a \<^verbatim>\<open>bytes\<close> object and an optional metadata dictionary and
  returns a dictionary. The embedding follows the source function by function:
  \<^item> \<^verbatim>\<open>bytes\<close> is a list of 8-bit words;
  \<^item> a numpy array is its dtype, its shape and its elements in row-major order;
  \<^item> an \<^verbatim>\<open>int16\<close> element is a 16-bit word, read as two's complement; a
    \<^verbatim>\<open>float32\<close> element is the 32-bit pattern of the IEEE 754 binary32 value, so that
    equality of results is equality of bits;
  \<^item> every numpy call that can raise returns a sum, \<open>Inl\<close> carrying the exception;
  \<^item> the returned dictionary is a record whose optional keys are \<open>option\<close> fields;
  \<^item> the call to the module's logger is the list of messages the call emits.

  numpy's \<^verbatim>\<open>np.int16\<close> and \<^verbatim>\<open>np.float32\<close> have the byte order of the host. The
  embedding is that of a little-endian host (x86-64, AArch64).
\<close>

subsection \<open>Bytes, exceptions, decimal numerals\<close>

type_synonym byte = "8 word"
type_synonym i16 = "16 word"
type_synonym f32 = "32 word"

datatype exn = ValueError string | IndexError string | TypeError string

text \<open>\<^verbatim>\<open>str(exc)\<close> of an exception built with one message argument is the message.\<close>

fun str_exn :: "exn \<Rightarrow> string" where
  "str_exn (ValueError msg) = msg"
| "str_exn (IndexError msg) = msg"
| "str_exn (TypeError msg) = msg"

definition bind_exn :: "exn + 'a \<Rightarrow> ('a \<Rightarrow> exn + 'b) \<Rightarrow> exn + 'b" where
  "bind_exn r f = (case r of Inl e \<Rightarrow> Inl e | Inr v \<Rightarrow> f v)"

definition digit_char :: "nat \<Rightarrow> char" where
  "digit_char d = ''0123456789'' ! d"

fun str_nat :: "nat \<Rightarrow> string" where
  "str_nat n = (if n < 10 then [digit_char n] else str_nat (n div 10) @ [digit_char (n mod 10)])"

declare str_nat.simps [simp del]

text \<open>The value of a little-endian byte string, least significant byte first.\<close>

fun le_nat :: "byte list \<Rightarrow> nat" where
  "le_nat [] = 0"
| "le_nat (b # bs) = unat b + 256 * le_nat bs"

definition le_word :: "byte list \<Rightarrow> 'a::len word" where
  "le_word bs = word_of_nat (le_nat bs)"

subsection \<open>IEEE 754 binary32 arithmetic on bit patterns\<close>

text \<open>
  A binary32 value is held as its 32 bits: sign (bit 31), biased exponent (bits 30 to 23)
  and fraction (bits 22 to 0). The decoder performs two arithmetic operations on such
  values, both correctly rounded to nearest, ties to even: the conversion of a 16-bit
  integer (\<^verbatim>\<open>astype(np.float32)\<close>) and the division by \<^verbatim>\<open>1000.0\<close>.
\<close>

fun bitlen :: "nat \<Rightarrow> nat" where
  "bitlen n = (if n = 0 then 0 else Suc (bitlen (n div 2)))"

declare bitlen.simps [simp del]

definition round_half_even :: "nat \<Rightarrow> nat \<Rightarrow> nat" where
  "round_half_even p q =
     (let d = p div q; r = p mod q
      in if 2 * r < q then d
         else if q < 2 * r then d + 1
         else if even d then d else d + 1)"

definition f32_inf_bits :: nat where
  "f32_inf_bits = 255 * 2 ^ 23"

text \<open>
  The bits (without the sign) of the binary32 value nearest to the positive rational
  \<open>p / q\<close>: \<open>e\<close> is the binary exponent of \<open>p / q\<close>, held at \<open>-126\<close> in the subnormal
  range, \<open>m\<close> is \<open>p / q\<close> scaled to a 24-bit significand and rounded. Adding \<open>m\<close> to
  the exponent field less one covers the hidden bit, the subnormals and the carry out of
  the significand at once; a result beyond the largest finite value is infinity.
\<close>

definition f32_round :: "nat \<Rightarrow> nat \<Rightarrow> nat" where
  "f32_round p q =
     (if p = 0 then 0
      else
        let k = int (bitlen p) - int (bitlen q);
            e = (if (if 0 \<le> k then q * 2 ^ nat k \<le> p else q \<le> p * 2 ^ nat (- k))
                 then k else k - 1);
            e' = max e (- 126);
            s = 23 - e';
            m = (if 0 \<le> s then round_half_even (p * 2 ^ nat s) q
                 else round_half_even p (q * 2 ^ nat (- s)));
            bits = nat (e' + 126) * 2 ^ 23 + m
        in if f32_inf_bits \<le> bits then f32_inf_bits else bits)"

definition f32_sign :: "f32 \<Rightarrow> bool" where
  "f32_sign x = bit x 31"

definition f32_exp :: "f32 \<Rightarrow> nat" where
  "f32_exp x = (unat x div 2 ^ 23) mod 256"

definition f32_frac :: "f32 \<Rightarrow> nat" where
  "f32_frac x = unat x mod 2 ^ 23"

definition f32_is_nan :: "f32 \<Rightarrow> bool" where
  "f32_is_nan x \<longleftrightarrow> f32_exp x = 255 \<and> f32_frac x \<noteq> 0"

definition f32_is_inf :: "f32 \<Rightarrow> bool" where
  "f32_is_inf x \<longleftrightarrow> f32_exp x = 255 \<and> f32_frac x = 0"

definition f32_is_zero :: "f32 \<Rightarrow> bool" where
  "f32_is_zero x \<longleftrightarrow> f32_exp x = 0 \<and> f32_frac x = 0"

text \<open>The magnitude of a finite value as a fraction (numerator, denominator).\<close>

definition f32_mag :: "f32 \<Rightarrow> nat \<times> nat" where
  "f32_mag x =
     (let e = f32_exp x; f = f32_frac x
      in if e = 0 then (f, 2 ^ 149)
         else if 150 \<le> e then ((2 ^ 23 + f) * 2 ^ (e - 150), 1)
         else (2 ^ 23 + f, 2 ^ (150 - e)))"

definition f32_pack :: "bool \<Rightarrow> nat \<Rightarrow> f32" where
  "f32_pack neg bits = word_of_nat ((if neg then 2 ^ 31 else 0) + bits)"

definition f32_nan :: f32 where
  "f32_nan = word_of_nat (255 * 2 ^ 23 + 2 ^ 22)"

text \<open>The C conversion of an integer to \<^verbatim>\<open>float\<close>; exact below \<open>2 ^ 24\<close>.\<close>

definition f32_of_int :: "int \<Rightarrow> f32" where
  "f32_of_int i = f32_pack (i < 0) (f32_round (nat \<bar>i\<bar>) 1)"

text \<open>
  Division. The payload of a NaN result depends on the processor; the default quiet NaN
  stands for it. numpy signals a division by zero with a warning, not an exception.
\<close>

definition f32_div :: "f32 \<Rightarrow> f32 \<Rightarrow> f32" where
  "f32_div x y =
     (let neg = (f32_sign x \<noteq> f32_sign y)
      in if f32_is_nan x \<or> f32_is_nan y \<or> (f32_is_zero x \<and> f32_is_zero y)
            \<or> (f32_is_inf x \<and> f32_is_inf y) then f32_nan
         else if f32_is_inf x \<or> f32_is_zero y then f32_pack neg f32_inf_bits
         else if f32_is_inf y then f32_pack neg 0
         else (case (f32_mag x, f32_mag y) of
                 ((px, qx), (py, qy)) \<Rightarrow> f32_pack neg (f32_round (px * qy) (qx * py))))"

text \<open>The Python float \<^verbatim>\<open>1000.0\<close> as a binary32 scalar: \<^verbatim>\<open>0x447A0000\<close>.\<close>

definition f32_1000 :: f32 where
  "f32_1000 = 0x447A0000"

subsection \<open>numpy arrays\<close>

datatype dtype = Int16 | Float32 | Float64

record 'a ndarray =
  dtype :: dtype
  shape :: "nat list"
  items :: "'a list"

text \<open>\<^verbatim>\<open>np.array([])\<close>: one dimension of length 0, dtype \<^verbatim>\<open>float64\<close>.\<close>

definition np_array_empty :: "'a ndarray" where
  "np_array_empty = \<lparr>dtype = Float64, shape = [0], items = []\<rparr>"

text \<open>\<^verbatim>\<open>len(a)\<close> is the first dimension; an array without dimensions has none.\<close>

definition np_len :: "'a ndarray \<Rightarrow> exn + nat" where
  "np_len a = (case shape a of [] \<Rightarrow> Inl (TypeError ''len() of unsized object'')
               | d # _ \<Rightarrow> Inr d)"

text \<open>
  \<^verbatim>\<open>np.frombuffer(binary_data, dtype=...)\<close>: element \<open>i\<close> is read from the bytes
  at offset \<open>i * itemsize\<close>; the buffer must hold a whole number of elements.
\<close>

definition frombuffer :: "nat \<Rightarrow> dtype \<Rightarrow> byte list \<Rightarrow> exn + ('a::len word) ndarray" where
  "frombuffer itemsize dt b =
     (if length b mod itemsize \<noteq> 0
      then Inl (ValueError ''buffer size must be a multiple of element size'')
      else Inr \<lparr>dtype = dt, shape = [length b div itemsize],
                items = map (\<lambda>i. le_word (take itemsize (drop (i * itemsize) b)))
                          [0..<length b div itemsize]\<rparr>)"

definition frombuffer_int16 :: "byte list \<Rightarrow> exn + i16 ndarray" where
  "frombuffer_int16 b = frombuffer 2 Int16 b"

definition frombuffer_float32 :: "byte list \<Rightarrow> exn + f32 ndarray" where
  "frombuffer_float32 b = frombuffer 4 Float32 b"

text \<open>\<^verbatim>\<open>a.reshape((rows, cols))\<close>: the element count must not change.\<close>

definition reshape :: "'a ndarray \<Rightarrow> nat \<times> nat \<Rightarrow> exn + 'a ndarray" where
  "reshape a rc =
     (case rc of (rows, cols) \<Rightarrow>
        if rows * cols \<noteq> length (items a)
        then Inl (ValueError (''cannot reshape array of size '' @ str_nat (length (items a))
                    @ '' into shape ('' @ str_nat rows @ '','' @ str_nat cols @ '')''))
        else Inr (a\<lparr>shape := [rows, cols]\<rparr>))"

text \<open>\<^verbatim>\<open>a[:, :k]\<close>: the first \<open>k\<close> columns of every row of a two-dimensional array.\<close>

definition take_cols :: "'a ndarray \<Rightarrow> nat \<Rightarrow> exn + 'a ndarray" where
  "take_cols a k =
     (case shape a of
        [rows, cols] \<Rightarrow>
          Inr (a\<lparr>shape := [rows, min k cols],
                 items := concat (map (\<lambda>i. map (\<lambda>j. items a ! (i * cols + j)) [0..<min k cols])
                                    [0..<rows])\<rparr>)
      | _ \<Rightarrow> Inl (IndexError ''too many indices for array''))"

text \<open>\<^verbatim>\<open>a[:, k]\<close>: column \<open>k\<close> of a two-dimensional array, as a one-dimensional one.\<close>

definition column :: "'a ndarray \<Rightarrow> nat \<Rightarrow> exn + 'a ndarray" where
  "column a k =
     (case shape a of
        [rows, cols] \<Rightarrow>
          if k < cols
          then Inr (a\<lparr>shape := [rows], items := map (\<lambda>i. items a ! (i * cols + k)) [0..<rows]\<rparr>)
          else Inl (IndexError (''index '' @ str_nat k @ '' is out of bounds for axis 1 with size ''
                      @ str_nat cols))
      | _ \<Rightarrow> Inl (IndexError ''too many indices for array''))"

text \<open>\<^verbatim>\<open>a.astype(np.float32)\<close> on an \<^verbatim>\<open>int16\<close> array, and \<^verbatim>\<open>a / 1000.0\<close>.\<close>

definition astype_float32 :: "i16 ndarray \<Rightarrow> f32 ndarray" where
  "astype_float32 a = \<lparr>dtype = Float32, shape = shape a, items = map (\<lambda>v. f32_of_int (sint v)) (items a)\<rparr>"

definition true_divide :: "f32 ndarray \<Rightarrow> f32 \<Rightarrow> f32 ndarray" where
  "true_divide a c = a\<lparr>items := map (\<lambda>x. f32_div x c) (items a)\<rparr>"

subsection \<open>The decoder\<close>

record DecodedPointCloud =
  point_count :: nat
  points :: "f32 ndarray"
  intensities :: "f32 ndarray option"
  format :: "string option"
  error :: "string option"

text \<open>\<^verbatim>\<open>{"point_count": 0, "points": np.array([])}\<close>\<close>

definition empty_result :: DecodedPointCloud where
  "empty_result = \<lparr>point_count = 0, points = np_array_empty, intensities = None,
                    format = None, error = None\<rparr>"

definition decode_xyz_float32 :: "byte list \<Rightarrow> exn + DecodedPointCloud" where
  "decode_xyz_float32 binary_data =
     (let num_points = length binary_data div 12
      in bind_exn (frombuffer_float32 binary_data) (\<lambda>flat.
         bind_exn (reshape flat (num_points, 3)) (\<lambda>pts.
         Inr \<lparr>point_count = num_points, points = pts, intensities = None,
              format = Some ''xyz_float32'', error = None\<rparr>)))"

definition decode_xyzi_float32 :: "byte list \<Rightarrow> exn + DecodedPointCloud" where
  "decode_xyzi_float32 binary_data =
     (let num_points = length binary_data div 16
      in bind_exn (frombuffer_float32 binary_data) (\<lambda>flat.
         bind_exn (reshape flat (num_points, 4)) (\<lambda>data.
         bind_exn (take_cols data 3) (\<lambda>pts.
         bind_exn (column data 3) (\<lambda>ints.
         Inr \<lparr>point_count = num_points, points = pts, intensities = Some ints,
              format = Some ''xyzi_float32'', error = None\<rparr>)))))"

definition decode_int16_12byte :: "byte list \<Rightarrow> exn + DecodedPointCloud" where
  "decode_int16_12byte binary_data =
     (if length binary_data mod 12 \<noteq> 0 then Inr empty_result
      else
        let num_points = length binary_data div 12
        in bind_exn (frombuffer_int16 binary_data) (\<lambda>flat.
           bind_exn (reshape flat (num_points, 6)) (\<lambda>data_int16.
           bind_exn (take_cols data_int16 3) (\<lambda>cols.
           let xyz_raw = astype_float32 cols;
               pts = true_divide xyz_raw f32_1000
           in Inr \<lparr>point_count = num_points, points = pts, intensities = None,
                   format = Some ''g1_slam_int16_12byte'', error = None\<rparr>))))"

text \<open>The body of the \<^verbatim>\<open>try\<close> block: the dispatch on the length of the buffer.\<close>

definition decode_try :: "byte list \<Rightarrow> exn + DecodedPointCloud" where
  "decode_try binary_data =
     (let data_len = length binary_data
      in if data_len = 0 then Inr empty_result
         else if data_len mod 12 = 0 then decode_int16_12byte binary_data
         else if data_len mod 16 = 0 then decode_xyzi_float32 binary_data
         else if data_len mod 12 = 0 then decode_xyz_float32 binary_data
         else decode_int16_12byte binary_data)"

text \<open>
  The \<^verbatim>\<open>except Exception\<close> clause: one record for the logger, and the dictionary
  with the \<^verbatim>\<open>error\<close> key. Every exception of the embedding is a subclass of
  \<^verbatim>\<open>Exception\<close>.
\<close>

definition except_log :: "exn \<Rightarrow> string" where
  "except_log exc = ''PointCloud2 decode error: '' @ str_exn exc"

definition except_result :: "exn \<Rightarrow> DecodedPointCloud" where
  "except_result exc = \<lparr>point_count = 0, points = np_array_empty, intensities = None,
                         format = None, error = Some (str_exn exc)\<rparr>"

definition try_except :: "exn + DecodedPointCloud \<Rightarrow> (exn + DecodedPointCloud) \<times> string list" where
  "try_except body =
     (case body of
        Inr result \<Rightarrow> (Inr result, [])
      | Inl exc \<Rightarrow> (Inr (except_result exc), [except_log exc]))"

text \<open>
  \<^verbatim>\<open>decode(self, binary_data, metadata=None)\<close>: what the call does, as the pair of its
  outcome (\<open>Inr\<close> the returned dictionary, \<open>Inl\<close> an exception reaching the caller) and
  the messages it sends to the logger. The class has no attributes, so \<^verbatim>\<open>self\<close>
  carries nothing. The metadata is \<^verbatim>\<open>Optional[Dict[str, Any]]\<close>.
\<close>

definition decode :: "byte list \<Rightarrow> (string \<rightharpoonup> 'v) option \<Rightarrow> (exn + DecodedPointCloud) \<times> string list" where
  "decode binary_data metadata = try_except (decode_try binary_data)"

subsection \<open>The layouts in the words of the specification\<close>

text \<open>
  The specification describes a layout record by record: the 16-bit or 32-bit
  little-endian value at a byte offset of the buffer, and the scaling of a 16-bit
  coordinate from millimetres to metres. These definitions are the reference the
  decoder is compared with.
\<close>

definition int16_at :: "byte list \<Rightarrow> nat \<Rightarrow> i16" where
  "int16_at b off = le_word (take 2 (drop off b))"

definition float32_at :: "byte list \<Rightarrow> nat \<Rightarrow> f32" where
  "float32_at b off = le_word (take 4 (drop off b))"

definition mm_to_m :: "i16 \<Rightarrow> f32" where
  "mm_to_m v = f32_div (f32_of_int (sint v)) f32_1000"

section \<open>Properties\<close>

subsection \<open>Evaluation and the numpy pipeline\<close>

lemmas f32_eval = f32_div_def f32_of_int_def f32_round_def f32_pack_def f32_mag_def
  f32_exp_def f32_frac_def f32_sign_def f32_is_nan_def f32_is_inf_def f32_is_zero_def
  f32_nan_def f32_inf_bits_def f32_1000_def round_half_even_def bitlen.simps Let_def

text \<open>
  The scaling on some 16-bit values: 0.001 is \<^verbatim>\<open>0x3A83126F\<close>, -32.768 is
  \<^verbatim>\<open>0xC203126F\<close>, 32.767 is \<^verbatim>\<open>0x42031168\<close>, 12.345 is \<^verbatim>\<open>0x4145851F\<close>, and 0
  stays \<^verbatim>\<open>0x00000000\<close>, as \<^verbatim>\<open>np.float32(v) / np.float32(1000.0)\<close> gives them.
\<close>

lemma mm_to_m_examples:
  "mm_to_m 1 = 0x3A83126F" "mm_to_m (- 32768) = 0xC203126F" "mm_to_m 32767 = 0x42031168"
  "mm_to_m 12345 = 0x4145851F" "mm_to_m 0 = 0" "mm_to_m (- 1) = 0xBA83126F"
  by (simp_all add: mm_to_m_def f32_eval)

lemma upt_3: "[0..<3] = [0, 1, 2]"
  by (simp add: upt_rec)

lemma concat_map_upt_1: "concat (map F [0..<1]) = F 0"
  by simp

lemma frombuffer_ok:
  "length b mod sz = 0 \<Longrightarrow>
   frombuffer sz dt b = Inr \<lparr>dtype = dt, shape = [length b div sz],
      items = map (\<lambda>i. le_word (take sz (drop (i * sz) b))) [0..<length b div sz]\<rparr>"
  by (simp add: frombuffer_def)

text \<open>The quantized decoder on a whole number of 12-byte records.\<close>

lemma decode_int16_12byte_ok:
  assumes "length b = 12 * n"
  shows "decode_int16_12byte b =
    Inr \<lparr>point_count = n,
         points = \<lparr>dtype = Float32, shape = [n, 3],
                    items = concat (map (\<lambda>i. [mm_to_m (int16_at b (12 * i)),
                                               mm_to_m (int16_at b (12 * i + 2)),
                                               mm_to_m (int16_at b (12 * i + 4))]) [0..<n])\<rparr>,
         intensities = None, format = Some ''g1_slam_int16_12byte'', error = None\<rparr>"
proof -
  have len2: "length b mod 2 = 0" and div2: "length b div 2 = n * 6"
    and div12: "length b div 12 = n" and mod12: "length b mod 12 = 0"
    using assms by simp_all
  let ?f = "\<lambda>i. (le_word (take 2 (drop (i * 2) b)) :: i16)"
  have cell: "map ?f [0..<n * 6] ! (i * 6 + j) = int16_at b (12 * i + 2 * j)"
    if "i < n" "j < 3" for i j
  proof -
    have "i * 6 + j < n * 6" using that by simp
    moreover have "(i * 6 + j) * 2 = 12 * i + 2 * j" by simp
    ultimately show ?thesis by (simp add: int16_at_def ac_simps)
  qed
  have row: "map (\<lambda>j. map ?f [0..<n * 6] ! (i * 6 + j)) [0..<3]
      = [int16_at b (12 * i), int16_at b (12 * i + 2), int16_at b (12 * i + 4)]" if "i < n" for i
  proof -
    have "map (\<lambda>j. map ?f [0..<n * 6] ! (i * 6 + j)) [0..<3]
        = map (\<lambda>j. int16_at b (12 * i + 2 * j)) [0..<3]"
      by (rule map_cong) (simp_all only: cell [OF that] set_upt atLeastLessThan_iff)
    then show ?thesis by (simp add: upt_3)
  qed
  have "concat (map (\<lambda>i. map (\<lambda>j. map ?f [0..<n * 6] ! (i * 6 + j)) [0..<3]) [0..<n])
      = concat (map (\<lambda>i. [int16_at b (12 * i), int16_at b (12 * i + 2), int16_at b (12 * i + 4)]) [0..<n])"
    by (rule arg_cong [where f = concat], rule map_cong) (simp_all add: row)
  then show ?thesis
    by (simp add: decode_int16_12byte_def mod12 div12 frombuffer_int16_def frombuffer_ok [OF len2] div2
          bind_exn_def reshape_def take_cols_def astype_float32_def true_divide_def
          map_concat comp_def mm_to_m_def)
qed

text \<open>The three coordinates of a record are read from its first six bytes.\<close>

lemma int16_at_record:
  assumes "take 6 (drop (12 * i) b') = take 6 (drop (12 * i) b)"
  shows "int16_at b' (12 * i) = int16_at b (12 * i)"
    and "int16_at b' (12 * i + 2) = int16_at b (12 * i + 2)"
    and "int16_at b' (12 * i + 4) = int16_at b (12 * i + 4)"
proof -
  have "take 2 (drop (12 * i + j) c) = take 2 (drop j (take 6 (drop (12 * i) c)))"
    if "j \<le> 4" for j and c :: "byte list"
    using that by (simp add: drop_take add.commute)
  from this [of 0 b'] this [of 0 b] this [of 2 b'] this [of 2 b] this [of 4 b'] this [of 4 b]
  show "int16_at b' (12 * i) = int16_at b (12 * i)"
    and "int16_at b' (12 * i + 2) = int16_at b (12 * i + 2)"
    and "int16_at b' (12 * i + 4) = int16_at b (12 * i + 4)"
    by (simp_all add: int16_at_def assms)
qed

text \<open>The guard of the quantized decoder.\<close>

lemma decode_int16_12byte_guard:
  "length b mod 12 \<noteq> 0 \<Longrightarrow> decode_int16_12byte b = Inr empty_result"
  by (simp add: decode_int16_12byte_def)

text \<open>The XYZI decoder on a whole number of 16-byte records.\<close>

lemma decode_xyzi_float32_ok:
  assumes "length b = 16 * n"
  shows "decode_xyzi_float32 b =
    Inr \<lparr>point_count = n,
         points = \<lparr>dtype = Float32, shape = [n, 3],
                    items = concat (map (\<lambda>i. [float32_at b (16 * i),
                                               float32_at b (16 * i + 4),
                                               float32_at b (16 * i + 8)]) [0..<n])\<rparr>,
         intensities = Some \<lparr>dtype = Float32, shape = [n],
                               items = map (\<lambda>i. float32_at b (16 * i + 12)) [0..<n]\<rparr>,
         format = Some ''xyzi_float32'', error = None\<rparr>"
proof -
  have len4: "length b mod 4 = 0" and div4: "length b div 4 = n * 4"
    and div16: "length b div 16 = n"
    using assms by simp_all
  let ?f = "\<lambda>i. (le_word (take 4 (drop (i * 4) b)) :: f32)"
  have cell: "map ?f [0..<n * 4] ! (i * 4 + j) = float32_at b (16 * i + 4 * j)"
    if "i < n" "j < 4" for i j
  proof -
    have "i * 4 + j < n * 4" using that by simp
    moreover have "(i * 4 + j) * 4 = 16 * i + 4 * j" by simp
    ultimately show ?thesis by (simp add: float32_at_def ac_simps)
  qed
  have row: "map (\<lambda>j. map ?f [0..<n * 4] ! (i * 4 + j)) [0..<3]
      = [float32_at b (16 * i), float32_at b (16 * i + 4), float32_at b (16 * i + 8)]"
    if "i < n" for i
  proof -
    have "map (\<lambda>j. map ?f [0..<n * 4] ! (i * 4 + j)) [0..<3]
        = map (\<lambda>j. float32_at b (16 * i + 4 * j)) [0..<3]"
    proof (rule map_cong)
      fix j assume "j \<in> set [0..<3]"
      then have "j < 4" by simp
      then show "map ?f [0..<n * 4] ! (i * 4 + j) = float32_at b (16 * i + 4 * j)"
        by (rule cell [OF that])
    qed simp
    then show ?thesis by (simp add: upt_3)
  qed
  have pts: "concat (map (\<lambda>i. map (\<lambda>j. map ?f [0..<n * 4] ! (i * 4 + j)) [0..<3]) [0..<n])
      = concat (map (\<lambda>i. [float32_at b (16 * i), float32_at b (16 * i + 4),
                            float32_at b (16 * i + 8)]) [0..<n])"
    by (rule arg_cong [where f = concat], rule map_cong) (simp_all add: row)
  have ints: "map (\<lambda>i. map ?f [0..<n * 4] ! (i * 4 + 3)) [0..<n]
      = map (\<lambda>i. float32_at b (16 * i + 12)) [0..<n]"
  proof (rule map_cong)
    fix i assume "i \<in> set [0..<n]"
    then have "i < n" by simp
    from cell [OF this, of 3] show "map ?f [0..<n * 4] ! (i * 4 + 3) = float32_at b (16 * i + 12)"
      by simp
  qed simp
  show ?thesis
    by (simp add: decode_xyzi_float32_def div16 frombuffer_float32_def frombuffer_ok [OF len4] div4
          bind_exn_def reshape_def take_cols_def column_def pts ints)
qed

text \<open>The dispatch, with the branch that no length reaches removed.\<close>

lemma decode_try_cases:
  "decode_try b =
     (if length b = 0 then Inr empty_result
      else if length b mod 12 = 0 then decode_int16_12byte b
      else if length b mod 16 = 0 then decode_xyzi_float32 b
      else decode_int16_12byte b)"
  by (simp add: decode_try_def Let_def)

text \<open>Every outcome of the dispatch is a dictionary that one of three paths builds.\<close>

lemma decode_try_forms:
  "decode_try b = Inr empty_result
   \<or> (\<exists>n. length b = 12 * n \<and> decode_try b = decode_int16_12byte b)
   \<or> (\<exists>n. length b = 16 * n \<and> decode_try b = decode_xyzi_float32 b)"
proof -
  consider "length b = 0" | "length b \<noteq> 0" "length b mod 12 = 0"
    | "length b mod 12 \<noteq> 0" "length b mod 16 = 0"
    | "length b mod 12 \<noteq> 0" "length b mod 16 \<noteq> 0"
    by fastforce
  then show ?thesis
  proof cases
    case 1
    then show ?thesis by (simp add: decode_try_cases)
  next
    case 2
    then have "12 dvd length b" by presburger
    then have "length b = 12 * (length b div 12)" by simp
    with 2 show ?thesis by (auto simp: decode_try_cases)
  next
    case 3
    then have "16 dvd length b" by presburger
    then have "length b = 16 * (length b div 16)" by simp
    with 3 show ?thesis by (auto simp: decode_try_cases)
  next
    case 4
    then show ?thesis by (simp add: decode_try_cases decode_int16_12byte_guard)
  qed
qed

lemma length_concat_rows:
  "length (concat (map (\<lambda>i. [f i, g i, h i]) [0..<n])) = n * 3"
  by (induction n) simp_all

text \<open>What every dictionary of the dispatch has in common.\<close>

lemma decode_try_result:
  "\<exists>r. decode_try b = Inr r \<and> error r = None \<and> format r \<noteq> Some ''xyz_float32''
      \<and> np_len (points r) = Inr (point_count r)
      \<and> length (items (points r)) = point_count r * (if format r = None then 0 else 3)
      \<and> (\<forall>a. intensities r = Some a \<longrightarrow>
            np_len a = Inr (point_count r) \<and> length (items a) = point_count r)"
  using decode_try_forms [of b]
proof (elim disjE exE conjE)
  assume "decode_try b = Inr empty_result"
  then show ?thesis
    by (simp add: empty_result_def np_array_empty_def np_len_def)
next
  fix n assume "length b = 12 * n" "decode_try b = decode_int16_12byte b"
  then show ?thesis
    by (simp add: decode_int16_12byte_ok np_len_def length_concat_rows)
next
  fix n assume "length b = 16 * n" "decode_try b = decode_xyzi_float32 b"
  then show ?thesis
    by (simp add: decode_xyzi_float32_ok np_len_def length_concat_rows)
qed

text \<open>A call of \<^verbatim>\<open>decode\<close> returns the dictionary of the dispatch and logs nothing.\<close>

lemma decode_of_try:
  "decode_try b = Inr r \<Longrightarrow> decode b md = (Inr r, [])"
  by (simp add: decode_def try_except_def)

subsection \<open>Concrete buffers\<close>

text \<open>
  One 12-byte record holding the 16-bit values 1000, 2000, -500, 0, 0, 0: the point
  (1.0, 2.0, -0.5), that is \<^verbatim>\<open>0x3F800000\<close>, \<^verbatim>\<open>0x40000000\<close>, \<^verbatim>\<open>0xBF000000\<close>.
\<close>

lemma decode_int16_example:
  "decode [0xE8, 0x03, 0xD0, 0x07, 0x0C, 0xFE, 0, 0, 0, 0, 0, 0] md =
     (Inr \<lparr>point_count = 1,
           points = \<lparr>dtype = Float32, shape = [1, 3],
                      items = [0x3F800000, 0x40000000, 0xBF000000]\<rparr>,
           intensities = None, format = Some ''g1_slam_int16_12byte'', error = None\<rparr>, [])"
proof -
  let ?b = "[0xE8, 0x03, 0xD0, 0x07, 0x0C, 0xFE, 0, 0, 0, 0, 0, 0] :: byte list"
  have len: "length ?b = 12 * 1" by simp
  have pts: "concat (map (\<lambda>i. [mm_to_m (int16_at ?b (12 * i)),
                                  mm_to_m (int16_at ?b (12 * i + 2)),
                                  mm_to_m (int16_at ?b (12 * i + 4))]) [0..<1])
      = [0x3F800000, 0x40000000, 0xBF000000]"
    unfolding concat_map_upt_1
    by (simp add: int16_at_def le_word_def mm_to_m_def f32_eval)
  have "decode_try ?b = decode_int16_12byte ?b"
    by (simp add: decode_try_cases)
  with decode_int16_12byte_ok [OF len, unfolded pts] have "decode_try ?b =
     Inr \<lparr>point_count = 1,
          points = \<lparr>dtype = Float32, shape = [1, 3],
                     items = [0x3F800000, 0x40000000, 0xBF000000]\<rparr>,
          intensities = None, format = Some ''g1_slam_int16_12byte'', error = None\<rparr>"
    by simp
  then show ?thesis by (rule decode_of_try)
qed

text \<open>
  One 16-byte record holding the 32-bit floats 1.5, 2.5, 3.5, 0.9, that is
  \<^verbatim>\<open>0x3FC00000\<close>, \<^verbatim>\<open>0x40200000\<close>, \<^verbatim>\<open>0x40600000\<close>, \<^verbatim>\<open>0x3F666666\<close>.
\<close>

lemma decode_xyzi_example:
  "decode [0, 0, 0xC0, 0x3F, 0, 0, 0x20, 0x40, 0, 0, 0x60, 0x40, 0x66, 0x66, 0x66, 0x3F] md =
     (Inr \<lparr>point_count = 1,
           points = \<lparr>dtype = Float32, shape = [1, 3],
                      items = [0x3FC00000, 0x40200000, 0x40600000]\<rparr>,
           intensities = Some \<lparr>dtype = Float32, shape = [1], items = [0x3F666666]\<rparr>,
           format = Some ''xyzi_float32'', error = None\<rparr>, [])"
proof -
  let ?b = "[0, 0, 0xC0, 0x3F, 0, 0, 0x20, 0x40, 0, 0, 0x60, 0x40, 0x66, 0x66, 0x66, 0x3F] :: byte list"
  have "length ?b = 16 * 1" by simp
  from decode_xyzi_float32_ok [OF this] have "decode_try ?b =
     Inr \<lparr>point_count = 1,
          points = \<lparr>dtype = Float32, shape = [1, 3],
                     items = [0x3FC00000, 0x40200000, 0x40600000]\<rparr>,
          intensities = Some \<lparr>dtype = Float32, shape = [1], items = [0x3F666666]\<rparr>,
          format = Some ''xyzi_float32'', error = None\<rparr>"
    by (simp add: decode_try_cases float32_at_def le_word_def)
  then show ?thesis by (rule decode_of_try)
qed

text \<open>
  The helpers are public to any caller of the class, and called on their own they do
  raise and do produce the third layout: the embedding keeps these paths.
\<close>

lemma decode_xyzi_float32_raises:
  "decode_xyzi_float32 [1, 2, 3, 4, 5, 6, 7, 8, 9, 10, 11, 12] =
     Inl (ValueError ''cannot reshape array of size 3 into shape (0,4)'')"
  by (simp add: decode_xyzi_float32_def frombuffer_float32_def frombuffer_def bind_exn_def
        reshape_def str_nat.simps digit_char_def)

lemma decode_xyzi_float32_raises_frombuffer:
  "decode_xyzi_float32 [1, 2, 3, 4, 5, 6, 7, 8, 9, 10, 11, 12, 13] =
     Inl (ValueError ''buffer size must be a multiple of element size'')"
  by (simp add: decode_xyzi_float32_def frombuffer_float32_def frombuffer_def bind_exn_def)

lemma decode_xyz_float32_example:
  "decode_xyz_float32 [0, 0, 0xC0, 0x3F, 0, 0, 0x20, 0x40, 0, 0, 0x60, 0x40] =
     Inr \<lparr>point_count = 1,
          points = \<lparr>dtype = Float32, shape = [1, 3],
                     items = [0x3FC00000, 0x40200000, 0x40600000]\<rparr>,
          intensities = None, format = Some ''xyz_float32'', error = None\<rparr>"
  by (simp add: decode_xyz_float32_def frombuffer_float32_def frombuffer_def bind_exn_def
        reshape_def upt_3 le_word_def)

subsection \<open>The claims\<close>

text \<open>
  C1. For every buffer and every metadata, \<^verbatim>\<open>decode\<close> returns a dictionary: no
  exception reaches the caller. The \<^verbatim>\<open>except\<close> clause turns every exception of the
  \<^verbatim>\<open>try\<close> body into a returned dictionary whose \<^verbatim>\<open>error\<close> key holds
  \<^verbatim>\<open>str(exc)\<close>.
\<close>

theorem decode_never_raises:
  "(\<exists>result msgs. decode binary_data metadata = (Inr result, msgs))
   \<and> (\<exists>result msgs. try_except (Inl exc) = (Inr result, msgs)
          \<and> error result = Some (str_exn exc))"
proof
  show "\<exists>result msgs. decode binary_data metadata = (Inr result, msgs)"
    by (cases "decode_try binary_data") (simp_all add: decode_def try_except_def)
  show "\<exists>result msgs. try_except (Inl exc) = (Inr result, msgs)
          \<and> error result = Some (str_exn exc)"
    by (simp add: try_except_def except_result_def)
qed

text \<open>
  C2. A non-empty buffer of \<open>12 * n\<close> bytes is decoded with the 16-bit quantized
  layout: \<open>n\<close> points, the format tag \<^verbatim>\<open>g1_slam_int16_12byte\<close>, no intensities, and
  point \<open>i\<close> is made of the three little-endian signed 16-bit values at the offsets
  \<open>12 * i\<close>, \<open>12 * i + 2\<close> and \<open>12 * i + 4\<close>, each converted to a 32-bit float and
  divided by \<^verbatim>\<open>1000.0\<close>. The last three 16-bit fields of a record are discarded: a
  buffer that differs only there is decoded to the same dictionary.
\<close>

theorem decode_quantized_layout:
  assumes "binary_data \<noteq> []" and "length binary_data = 12 * n"
  shows "decode binary_data metadata =
    (Inr \<lparr>point_count = n,
          points = \<lparr>dtype = Float32, shape = [n, 3],
                     items = concat (map (\<lambda>i. [mm_to_m (int16_at binary_data (12 * i)),
                                                mm_to_m (int16_at binary_data (12 * i + 2)),
                                                mm_to_m (int16_at binary_data (12 * i + 4))])
                                       [0..<n])\<rparr>,
          intensities = None, format = Some ''g1_slam_int16_12byte'', error = None\<rparr>, [])
    \<and> (\<forall>other. length other = length binary_data
          \<and> (\<forall>i<n. take 6 (drop (12 * i) other) = take 6 (drop (12 * i) binary_data))
          \<longrightarrow> decode other metadata = decode binary_data metadata)"
proof -
  have dec: "decode b metadata =
    (Inr \<lparr>point_count = n,
          points = \<lparr>dtype = Float32, shape = [n, 3],
                     items = concat (map (\<lambda>i. [mm_to_m (int16_at b (12 * i)),
                                                mm_to_m (int16_at b (12 * i + 2)),
                                                mm_to_m (int16_at b (12 * i + 4))])
                                       [0..<n])\<rparr>,
          intensities = None, format = Some ''g1_slam_int16_12byte'', error = None\<rparr>, [])"
    if ne: "b \<noteq> []" and len: "length b = 12 * n" for b
  proof -
    from ne have "length b \<noteq> 0" by simp
    moreover from len have "length b mod 12 = 0" by simp
    ultimately have "decode_try b = decode_int16_12byte b"
      by (simp add: decode_try_cases)
    with decode_int16_12byte_ok [OF len] show ?thesis
      by (simp add: decode_of_try)
  qed
  have "decode other metadata = decode binary_data metadata"
    if len: "length other = length binary_data"
      and same: "\<forall>i<n. take 6 (drop (12 * i) other) = take 6 (drop (12 * i) binary_data)"
    for other
  proof -
    from len assms have ne': "other \<noteq> []" and len': "length other = 12 * n" by auto
    have "map (\<lambda>i. [mm_to_m (int16_at other (12 * i)),
                     mm_to_m (int16_at other (12 * i + 2)),
                     mm_to_m (int16_at other (12 * i + 4))]) [0..<n]
        = map (\<lambda>i. [mm_to_m (int16_at binary_data (12 * i)),
                     mm_to_m (int16_at binary_data (12 * i + 2)),
                     mm_to_m (int16_at binary_data (12 * i + 4))]) [0..<n]"
    proof (rule map_cong)
      fix i assume "i \<in> set [0..<n]"
      then have "take 6 (drop (12 * i) other) = take 6 (drop (12 * i) binary_data)"
        using same by simp
      from int16_at_record [OF this]
      show "[mm_to_m (int16_at other (12 * i)),
             mm_to_m (int16_at other (12 * i + 2)),
             mm_to_m (int16_at other (12 * i + 4))]
          = [mm_to_m (int16_at binary_data (12 * i)),
             mm_to_m (int16_at binary_data (12 * i + 2)),
             mm_to_m (int16_at binary_data (12 * i + 4))]"
        by simp
    qed simp
    then show ?thesis
      by (simp only: dec [OF ne' len'] dec [OF assms])
  qed
  with dec [OF assms] show ?thesis by blast
qed

theorem decode_quantized_layout_witness:
  "[0xE8, 0x03, 0xD0, 0x07, 0x0C, 0xFE, 0, 0, 0, 0, 0, 0] \<noteq> ([] :: byte list)
   \<and> length [0xE8, 0x03, 0xD0, 0x07, 0x0C, 0xFE, 0, 0, 0, 0, 0, 0 :: byte] = 12 * 1
   \<and> decode [0xE8, 0x03, 0xD0, 0x07, 0x0C, 0xFE, 0, 0, 0, 0, 0, 0] (None :: (string \<rightharpoonup> unit) option) =
       (Inr \<lparr>point_count = 1,
             points = \<lparr>dtype = Float32, shape = [1, 3],
                        items = [0x3F800000, 0x40000000, 0xBF000000]\<rparr>,
             intensities = None, format = Some ''g1_slam_int16_12byte'', error = None\<rparr>, [])
   \<and> take 6 (drop (12 * 0) [0xE8, 0x03, 0xD0, 0x07, 0x0C, 0xFE, 1, 2, 3, 4, 5, 6 :: byte])
        = take 6 (drop (12 * 0) [0xE8, 0x03, 0xD0, 0x07, 0x0C, 0xFE, 0, 0, 0, 0, 0, 0])
   \<and> decode [0xE8, 0x03, 0xD0, 0x07, 0x0C, 0xFE, 1, 2, 3, 4, 5, 6] (None :: (string \<rightharpoonup> unit) option) =
       (Inr \<lparr>point_count = 1,
             points = \<lparr>dtype = Float32, shape = [1, 3],
                        items = [0x3F800000, 0x40000000, 0xBF000000]\<rparr>,
             intensities = None, format = Some ''g1_slam_int16_12byte'', error = None\<rparr>, [])"
proof -
  let ?b = "[0xE8, 0x03, 0xD0, 0x07, 0x0C, 0xFE, 0, 0, 0, 0, 0, 0] :: byte list"
  let ?other = "[0xE8, 0x03, 0xD0, 0x07, 0x0C, 0xFE, 1, 2, 3, 4, 5, 6] :: byte list"
  have ne: "?b \<noteq> []" and len: "length ?b = 12 * 1" by simp_all
  have pts: "concat (map (\<lambda>i. [mm_to_m (int16_at ?b (12 * i)),
                                  mm_to_m (int16_at ?b (12 * i + 2)),
                                  mm_to_m (int16_at ?b (12 * i + 4))]) [0..<1])
      = [0x3F800000, 0x40000000, 0xBF000000]"
    unfolding concat_map_upt_1
    by (simp add: int16_at_def le_word_def mm_to_m_def f32_eval)
  have same: "\<forall>i<1. take 6 (drop (12 * i) ?other) = take 6 (drop (12 * i) ?b)"
    by simp
  have len': "length ?other = length ?b" by simp
  note main = decode_quantized_layout [OF ne len, of "None :: (string \<rightharpoonup> unit) option", unfolded pts]
  from main have d: "decode ?b (None :: (string \<rightharpoonup> unit) option) =
       (Inr \<lparr>point_count = 1,
             points = \<lparr>dtype = Float32, shape = [1, 3],
                        items = [0x3F800000, 0x40000000, 0xBF000000]\<rparr>,
             intensities = None, format = Some ''g1_slam_int16_12byte'', error = None\<rparr>, [])"
    by (rule conjunct1)
  have eq: "decode ?other (None :: (string \<rightharpoonup> unit) option)
      = decode ?b (None :: (string \<rightharpoonup> unit) option)"
    by (rule main [THEN conjunct2, THEN spec, THEN mp]) (intro conjI len' same)
  from eq d have d': "decode ?other (None :: (string \<rightharpoonup> unit) option) =
       (Inr \<lparr>point_count = 1,
             points = \<lparr>dtype = Float32, shape = [1, 3],
                        items = [0x3F800000, 0x40000000, 0xBF000000]\<rparr>,
             intensities = None, format = Some ''g1_slam_int16_12byte'', error = None\<rparr>, [])"
    by (rule trans)
  have same0: "take 6 (drop (12 * 0) ?other) = take 6 (drop (12 * 0) ?b)"
    by simp
  from ne len d same0 d' show ?thesis by (intro conjI)
qed

text \<open>
  C3. No buffer is decoded with the 32-bit float XYZ layout: the dictionary that
  \<^verbatim>\<open>decode\<close> returns never carries the format tag \<^verbatim>\<open>xyz_float32\<close>.
\<close>

theorem decode_never_xyz_float32:
  "\<exists>result. decode binary_data metadata = (Inr result, [])
      \<and> format result \<noteq> Some ''xyz_float32''"
  using decode_try_result [of binary_data] by (auto simp: decode_of_try)

text \<open>
  C4. In the dictionary that \<^verbatim>\<open>decode\<close> returns, \<^verbatim>\<open>len(points)\<close> is
  \<^verbatim>\<open>point_count\<close>, and when the key \<^verbatim>\<open>intensities\<close> is present its length is
  \<^verbatim>\<open>point_count\<close> as well, with one element for each point.
\<close>

theorem decode_lengths:
  assumes "decode binary_data metadata = (Inr result, msgs)"
  shows "np_len (points result) = Inr (point_count result)
    \<and> (\<forall>a. intensities result = Some a \<longrightarrow>
          np_len a = Inr (point_count result) \<and> length (items a) = point_count result)"
proof -
  from decode_try_result [of binary_data] obtain r where r: "decode_try binary_data = Inr r"
    and len: "np_len (points r) = Inr (point_count r)"
    and ints: "\<forall>a. intensities r = Some a \<longrightarrow>
          np_len a = Inr (point_count r) \<and> length (items a) = point_count r"
    by blast
  from decode_of_try [OF r, of metadata] assms have "result = r" by simp
  with len ints show ?thesis by simp
qed

theorem decode_lengths_witness:
  "decode [0, 0, 0xC0, 0x3F, 0, 0, 0x20, 0x40, 0, 0, 0x60, 0x40, 0x66, 0x66, 0x66, 0x3F]
     (None :: (string \<rightharpoonup> unit) option) =
     (Inr \<lparr>point_count = 1,
           points = \<lparr>dtype = Float32, shape = [1, 3],
                      items = [0x3FC00000, 0x40200000, 0x40600000]\<rparr>,
           intensities = Some \<lparr>dtype = Float32, shape = [1], items = [0x3F666666]\<rparr>,
           format = Some ''xyzi_float32'', error = None\<rparr>, [])
   \<and> np_len \<lparr>dtype = Float32, shape = [1, 3],
              items = [0x3FC00000, 0x40200000, 0x40600000 :: f32]\<rparr> = Inr 1
   \<and> np_len \<lparr>dtype = Float32, shape = [1], items = [0x3F666666 :: f32]\<rparr> = Inr 1
   \<and> length [0x3F666666 :: f32] = 1"
  using decode_lengths [OF decode_xyzi_example [of "None :: (string \<rightharpoonup> unit) option"]]
    decode_xyzi_example [of "None :: (string \<rightharpoonup> unit) option"]
  by simp

text \<open>
  C5. A buffer whose length is a multiple of 16 and not of 12 is decoded with the 32-bit
  float XYZI layout: \<open>length div 16\<close> points, the format tag \<^verbatim>\<open>xyzi_float32\<close>, point
  \<open>i\<close> made of the three little-endian 32-bit floats at the offsets \<open>16 * i\<close>,
  \<open>16 * i + 4\<close> and \<open>16 * i + 8\<close>, and intensity \<open>i\<close> the float at the offset
  \<open>16 * i + 12\<close>. The floats are the bits of the buffer: nothing is scaled.
\<close>

theorem decode_xyzi_layout:
  assumes "length binary_data mod 16 = 0" and "length binary_data mod 12 \<noteq> 0"
  shows "decode binary_data metadata =
    (Inr \<lparr>point_count = length binary_data div 16,
          points = \<lparr>dtype = Float32, shape = [length binary_data div 16, 3],
                     items = concat (map (\<lambda>i. [float32_at binary_data (16 * i),
                                                float32_at binary_data (16 * i + 4),
                                                float32_at binary_data (16 * i + 8)])
                                       [0..<length binary_data div 16])\<rparr>,
          intensities = Some \<lparr>dtype = Float32, shape = [length binary_data div 16],
                                items = map (\<lambda>i. float32_at binary_data (16 * i + 12))
                                          [0..<length binary_data div 16]\<rparr>,
          format = Some ''xyzi_float32'', error = None\<rparr>, [])"
proof -
  from assms(1) have "16 dvd length binary_data" by presburger
  then have len: "length binary_data = 16 * (length binary_data div 16)" by simp
  from assms(2) have "length binary_data \<noteq> 0" by auto
  with assms have "decode_try binary_data = decode_xyzi_float32 binary_data"
    by (simp add: decode_try_cases)
  with decode_xyzi_float32_ok [OF len] show ?thesis
    by (simp add: decode_of_try)
qed

theorem decode_xyzi_layout_witness:
  "length [0, 0, 0xC0, 0x3F, 0, 0, 0x20, 0x40, 0, 0, 0x60, 0x40, 0x66, 0x66, 0x66, 0x3F :: byte] mod 16 = 0
   \<and> length [0, 0, 0xC0, 0x3F, 0, 0, 0x20, 0x40, 0, 0, 0x60, 0x40, 0x66, 0x66, 0x66, 0x3F :: byte] mod 12 \<noteq> 0
   \<and> decode [0, 0, 0xC0, 0x3F, 0, 0, 0x20, 0x40, 0, 0, 0x60, 0x40, 0x66, 0x66, 0x66, 0x3F]
        (None :: (string \<rightharpoonup> unit) option) =
       (Inr \<lparr>point_count = 1,
             points = \<lparr>dtype = Float32, shape = [1, 3],
                        items = [0x3FC00000, 0x40200000, 0x40600000]\<rparr>,
             intensities = Some \<lparr>dtype = Float32, shape = [1], items = [0x3F666666]\<rparr>,
             format = Some ''xyzi_float32'', error = None\<rparr>, [])"
proof -
  let ?b = "[0, 0, 0xC0, 0x3F, 0, 0, 0x20, 0x40, 0, 0, 0x60, 0x40, 0x66, 0x66, 0x66, 0x3F] :: byte list"
  have m16: "length ?b mod 16 = 0" and m12: "length ?b mod 12 \<noteq> 0" by simp_all
  from decode_xyzi_layout [OF m16 m12, of "None :: (string \<rightharpoonup> unit) option"]
  show ?thesis by (simp add: float32_at_def le_word_def)
qed

text \<open>
  C6. A buffer whose length is a multiple of neither 12 nor 16 reaches the last line of
  the dispatch, the 16-bit quantized decoder, whose own length check returns the empty
  dictionary: no points, no format tag, no \<^verbatim>\<open>error\<close> key, no exception and nothing
  logged.
\<close>

theorem decode_fallback_empty:
  assumes "length binary_data mod 12 \<noteq> 0" and "length binary_data mod 16 \<noteq> 0"
  shows "decode_try binary_data = decode_int16_12byte binary_data
    \<and> decode binary_data metadata =
        (Inr \<lparr>point_count = 0, points = \<lparr>dtype = Float64, shape = [0], items = []\<rparr>,
              intensities = None, format = None, error = None\<rparr>, [])"
proof -
  from assms(1) have "length binary_data \<noteq> 0" by auto
  with assms have t: "decode_try binary_data = decode_int16_12byte binary_data"
    by (simp add: decode_try_cases)
  moreover from assms(1) have "decode_int16_12byte binary_data = Inr empty_result"
    by (rule decode_int16_12byte_guard)
  ultimately show ?thesis
    by (simp add: decode_of_try empty_result_def np_array_empty_def)
qed

theorem decode_fallback_empty_witness:
  "length [1, 2, 3, 4, 5, 6, 7, 8, 9, 10, 11, 12, 13 :: byte] mod 12 \<noteq> 0
   \<and> length [1, 2, 3, 4, 5, 6, 7, 8, 9, 10, 11, 12, 13 :: byte] mod 16 \<noteq> 0
   \<and> decode [1, 2, 3, 4, 5, 6, 7, 8, 9, 10, 11, 12, 13] (None :: (string \<rightharpoonup> unit) option) =
       (Inr \<lparr>point_count = 0, points = \<lparr>dtype = Float64, shape = [0], items = []\<rparr>,
             intensities = None, format = None, error = None\<rparr>, [])"
proof -
  let ?b = "[1, 2, 3, 4, 5, 6, 7, 8, 9, 10, 11, 12, 13] :: byte list"
  have m12: "length ?b mod 12 \<noteq> 0" and m16: "length ?b mod 16 \<noteq> 0" by simp_all
  from decode_fallback_empty [OF m12 m16, of "None :: (string \<rightharpoonup> unit) option"]
  show ?thesis by simp
qed

text \<open>
  C7. The empty buffer gives \<^verbatim>\<open>point_count\<close> 0 and an empty \<^verbatim>\<open>points\<close> array,
  without the keys \<^verbatim>\<open>error\<close>, \<^verbatim>\<open>format\<close> and \<^verbatim>\<open>intensities\<close>.
\<close>

theorem decode_empty_buffer:
  "decode [] metadata =
     (Inr \<lparr>point_count = 0, points = \<lparr>dtype = Float64, shape = [0], items = []\<rparr>,
           intensities = None, format = None, error = None\<rparr>, [])"
  by (simp add: decode_def try_except_def decode_try_def empty_result_def np_array_empty_def)

text \<open>
  C8. A dictionary does not carry both an \<^verbatim>\<open>error\<close> and a \<^verbatim>\<open>format\<close>, and one
  with an \<^verbatim>\<open>error\<close> has \<^verbatim>\<open>point_count\<close> 0 and no points. This holds of the dictionary
  that \<^verbatim>\<open>decode\<close> returns and of the dictionary that its \<^verbatim>\<open>except\<close> clause
  builds from any exception, the only place where the \<^verbatim>\<open>error\<close> key is set.
\<close>

theorem decode_error_excludes_format:
  assumes "decode binary_data metadata = (Inr result, msgs) \<or> result = except_result exc"
  shows "(error result = None \<or> format result = None)
    \<and> (error result \<noteq> None \<longrightarrow>
          point_count result = 0 \<and> np_len (points result) = Inr 0
          \<and> items (points result) = [])"
  using assms
proof
  assume d: "decode binary_data metadata = (Inr result, msgs)"
  from decode_try_result [of binary_data] obtain r
    where r: "decode_try binary_data = Inr r" and "error r = None"
    by blast
  with decode_of_try [OF r, of metadata] d have "error result = None" by simp
  then show ?thesis by simp
next
  assume "result = except_result exc"
  then show ?thesis
    by (simp add: except_result_def np_array_empty_def np_len_def)
qed

theorem decode_error_excludes_format_witness:
  "error (except_result (ValueError ''buffer size must be a multiple of element size'')) \<noteq> None
   \<and> format (except_result (ValueError ''buffer size must be a multiple of element size'')) = None
   \<and> point_count (except_result (ValueError ''buffer size must be a multiple of element size'')) = 0
   \<and> items (points (except_result (ValueError ''buffer size must be a multiple of element size''))) = []"
proof -
  let ?r = "except_result (ValueError ''buffer size must be a multiple of element size'')"
  have e: "error ?r \<noteq> None" by (simp add: except_result_def)
  have "decode [] (None :: (string \<rightharpoonup> unit) option) = (Inr ?r, []) \<or> ?r = ?r" by simp
  from decode_error_excludes_format [OF this] e show ?thesis by simp
qed


text \<open>
  C10. The \<^verbatim>\<open>except\<close> clause of \<^verbatim>\<open>decode\<close> is never entered: for every buffer the
  \<^verbatim>\<open>try\<close> body returns a dictionary, \<^verbatim>\<open>decode\<close> returns that dictionary, it has
  no \<^verbatim>\<open>error\<close> key, and nothing is logged.
\<close>

theorem decode_handler_unreachable:
  "\<exists>result. decode_try binary_data = Inr result
      \<and> decode binary_data metadata = (Inr result, [])
      \<and> error result = None"
  using decode_try_result [of binary_data] by (auto simp: decode_of_try)

end
